theory Spec2Isabelle
  imports Complex_Main
begin

section \<open>Python values of the request handlers\<close>

text \<open>
  The handlers of \<^verbatim>\<open>app.py\<close> are dynamically typed: a request body is whatever
  \<^verbatim>\<open>request.get_json()\<close> returns, and its fields are tested only for truthiness.
  The values a JSON body can hold are modelled by one datatype. A decimal number is a
  coefficient and a power of ten, an infinity or a NaN, as Python's \<^verbatim>\<open>Decimal\<close> has it.
  A float is carried as the decimal numeral that \<^verbatim>\<open>str\<close> prints for it, which is how
  the unit conversion reads a float; binary rounding is outside the model.
\<close>

datatype decimal = Dec int int | DInf bool | DNaN

datatype py_value =
    PNone
  | PBool bool
  | PInt int
  | PFloat decimal
  | PDecimal decimal
  | PStr string
  | PList "py_value list"
  | PDict "(string \<times> py_value) list"

text \<open>
  An exception: its class name and the text \<^verbatim>\<open>str(e)\<close> gives. The handlers read the text
  of the exceptions that the chain client raises; the texts written here for Python's
  own and the conversion's exceptions are indicative, and no handler reads them.
\<close>

datatype py_exn = PyExn (exn_class: string) (exn_str: string)

fun dec_is_zero :: "decimal \<Rightarrow> bool" where
  "dec_is_zero (Dec c e) = (c = 0)"
| "dec_is_zero (DInf neg) = False"
| "dec_is_zero DNaN = False"

text \<open>Python's truth value of an object, as \<^verbatim>\<open>not x\<close> tests it.\<close>

fun truthy :: "py_value \<Rightarrow> bool" where
  "truthy PNone = False"
| "truthy (PBool b) = b"
| "truthy (PInt n) = (n \<noteq> 0)"
| "truthy (PFloat d) = (\<not> dec_is_zero d)"
| "truthy (PDecimal d) = (\<not> dec_is_zero d)"
| "truthy (PStr s) = (s \<noteq> [])"
| "truthy (PList xs) = (xs \<noteq> [])"
| "truthy (PDict kvs) = (kvs \<noteq> [])"

text \<open>\<^verbatim>\<open>d.get(key)\<close> on a dict: the value, or \<^verbatim>\<open>None\<close> for an absent key.\<close>

definition dict_get :: "(string \<times> py_value) list \<Rightarrow> string \<Rightarrow> py_value" where
  "dict_get kvs k = (case map_of kvs k of None \<Rightarrow> PNone | Some v \<Rightarrow> v)"

section \<open>Unit conversion\<close>

text \<open>
  Modelled from the spec: the unit conversion of the chain client adapter (spec sections
  3, 4.1, 4.2 and 8). In the source it is \<^verbatim>\<open>w3.to_wei\<close> and \<^verbatim>\<open>w3.fromWei\<close>, functions
  of the web3 library, which is not part of the repository's files. The spec gives the
  conversion as the amount times \<open>10^18\<close>, as an integer. Where the spec is silent the
  model follows the library: an amount is read as a decimal numeral (an integer, a float
  through its \<^verbatim>\<open>str\<close>, a string through the \<^verbatim>\<open>Decimal\<close> constructor), any other type is
  a \<^verbatim>\<open>TypeError\<close>, zero converts to zero, a result outside \<open>0 .. 2^256 - 1\<close> is a
  \<^verbatim>\<open>ValueError\<close>, and the integer returned is the product with its fraction dropped
  (\<^verbatim>\<open>int(result_value)\<close>). The library computes the product at 999 significant digits
  and first rescales an amount below one that is written with a decimal point; the model
  computes the product exactly. Strings are ASCII.
\<close>

definition is_digit :: "char \<Rightarrow> bool" where
  "is_digit c = (c \<in> set ''0123456789'')"

definition is_space :: "char \<Rightarrow> bool" where
  "is_space c = ((of_char c :: nat) \<in> set [9, 10, 11, 12, 13, 28, 29, 30, 31, 32])"

definition lower :: "char \<Rightarrow> char" where
  "lower c = (if 65 \<le> (of_char c :: nat) \<and> (of_char c :: nat) \<le> 90
              then char_of ((of_char c :: nat) + 32) else c)"

definition strip :: "string \<Rightarrow> string" where
  "strip s = rev (dropWhile is_space (rev (dropWhile is_space s)))"

definition digits_value :: "string \<Rightarrow> nat" where
  "digits_value ds = foldl (\<lambda>n c. 10 * n + ((of_char c :: nat) - 48)) 0 ds"

definition split_sign :: "string \<Rightarrow> bool \<times> string" where
  "split_sign s =
     (case s of
        [] \<Rightarrow> (False, [])
      | c # r \<Rightarrow> if c = CHR ''-'' then (True, r)
                 else if c = CHR ''+'' then (False, r)
                 else (False, s))"

definition exponent_part :: "string \<Rightarrow> int option" where
  "exponent_part s =
     (case s of
        [] \<Rightarrow> Some 0
      | c # r \<Rightarrow>
          if lower c = CHR ''e'' then
            (case split_sign r of (neg, ds) \<Rightarrow>
               if ds \<noteq> [] \<and> list_all is_digit ds
               then Some (if neg then - int (digits_value ds) else int (digits_value ds))
               else None)
          else None)"

definition nan_form :: "string \<Rightarrow> bool" where
  "nan_form l =
     ((take 3 l = ''nan'' \<and> list_all is_digit (drop 3 l)) \<or>
      (take 4 l = ''snan'' \<and> list_all is_digit (drop 4 l)))"

text \<open>
  \<^verbatim>\<open>Decimal(s)\<close> for a string: surrounding whitespace and underscores are removed, then
  the text is a sign, digits with an optional point, and an optional exponent, or an
  infinity or a NaN. \<open>None\<close> stands for \<^verbatim>\<open>decimal.InvalidOperation\<close>.
\<close>

definition Decimal_of_str :: "string \<Rightarrow> decimal option" where
  "Decimal_of_str s =
     (case split_sign (filter (\<lambda>c. c \<noteq> CHR ''_'') (strip s)) of (neg, u) \<Rightarrow>
        if map lower u = ''inf'' \<or> map lower u = ''infinity'' then Some (DInf neg)
        else if nan_form (map lower u) then Some DNaN
        else
          (let ip = takeWhile is_digit u;
               r1 = dropWhile is_digit u;
               fp = (case r1 of [] \<Rightarrow> [] | c # r \<Rightarrow>
                       if c = CHR ''.'' then takeWhile is_digit r else []);
               r2 = (case r1 of [] \<Rightarrow> [] | c # r \<Rightarrow>
                       if c = CHR ''.'' then dropWhile is_digit r else r1)
           in if ip = [] \<and> fp = [] then None
              else
                (case exponent_part r2 of
                   None \<Rightarrow> None
                 | Some ex \<Rightarrow>
                     Some (Dec (if neg then - int (digits_value (ip @ fp))
                                else int (digits_value (ip @ fp)))
                               (ex - int (length fp))))))"

definition InvalidOperation :: py_exn where
  "InvalidOperation = PyExn ''InvalidOperation'' ''[<class 'decimal.ConversionSyntax'>]''"

definition UnsupportedType :: py_exn where
  "UnsupportedType =
     PyExn ''TypeError'' ''Unsupported type. Must be one of integer, float, or string''"

definition UnknownUnit :: py_exn where
  "UnknownUnit = PyExn ''ValueError'' ''Unknown unit''"

definition WeiOutOfRange :: py_exn where
  "WeiOutOfRange =
     PyExn ''ValueError'' ''Resulting wei value must be between 1 and 2**256 - 1''"

fun Decimal_of :: "py_value \<Rightarrow> py_exn + decimal" where
  "Decimal_of (PInt n) = Inr (Dec n 0)"
| "Decimal_of (PStr s) =
     (case Decimal_of_str s of None \<Rightarrow> Inl InvalidOperation | Some d \<Rightarrow> Inr d)"
| "Decimal_of (PFloat d) = Inr d"
| "Decimal_of (PDecimal d) = Inr d"
| "Decimal_of PNone = Inl UnsupportedType"
| "Decimal_of (PBool b) = Inl UnsupportedType"
| "Decimal_of (PList xs) = Inl UnsupportedType"
| "Decimal_of (PDict kvs) = Inl UnsupportedType"

text \<open>The unit table, as the exponent of ten of each unit the source names.\<close>

definition units :: "string \<Rightarrow> nat option" where
  "units u =
     (if u = ''wei'' then Some 0
      else if u = ''gwei'' then Some 9
      else if u = ''ether'' then Some 18
      else None)"

definition MIN_WEI :: int where
  "MIN_WEI = 0"

definition MAX_WEI :: int where
  "MAX_WEI = 2 ^ 256 - 1"

text \<open>\<^verbatim>\<open>int(d)\<close> of the decimal \<open>c * 10^e\<close>: the fraction is dropped, towards zero.\<close>

definition int_of_Dec :: "int \<Rightarrow> int \<Rightarrow> int" where
  "int_of_Dec c e =
     (if 0 \<le> e then c * 10 ^ nat e
      else if 0 \<le> c then c div 10 ^ nat (- e)
      else - ((- c) div 10 ^ nat (- e)))"

text \<open>Comparing the decimal \<open>c * 10^e\<close> with an integer, in integers.\<close>

definition Dec_less :: "int \<Rightarrow> int \<Rightarrow> int \<Rightarrow> bool" where
  "Dec_less c e n = (if 0 \<le> e then c * 10 ^ nat e < n else c < n * 10 ^ nat (- e))"

definition Dec_greater :: "int \<Rightarrow> int \<Rightarrow> int \<Rightarrow> bool" where
  "Dec_greater c e n = (if 0 \<le> e then n < c * 10 ^ nat e else n * 10 ^ nat (- e) < c)"

text \<open>
  Modelled from the spec: \<^verbatim>\<open>w3.to_wei(number, unit)\<close>, the conversion of a decimal amount
  to the integer number of smallest units; the library function is not in the repository.
\<close>

definition to_wei :: "py_value \<Rightarrow> string \<Rightarrow> py_exn + int" where
  "to_wei number unit =
     (case units (map lower unit) of
        None \<Rightarrow> Inl UnknownUnit
      | Some k \<Rightarrow>
          (case Decimal_of number of
             Inl ex \<Rightarrow> Inl ex
           | Inr DNaN \<Rightarrow> Inl InvalidOperation
           | Inr (DInf neg) \<Rightarrow> Inl WeiOutOfRange
           | Inr (Dec c e) \<Rightarrow>
               if c = 0 then Inr 0
               else if Dec_less (c * 10 ^ k) e MIN_WEI \<or> Dec_greater (c * 10 ^ k) e MAX_WEI
               then Inl WeiOutOfRange
               else Inr (int_of_Dec (c * 10 ^ k) e)))"

text \<open>
  Modelled from the spec: the conversion back from smallest units to decimal display
  units (the library's \<^verbatim>\<open>from_wei\<close>, not in the repository). Zero stays the integer zero,
  a value outside \<open>0 .. 2^256 - 1\<close> is a \<^verbatim>\<open>ValueError\<close>, any other value is the decimal
  \<open>n / 10^k\<close>.
\<close>

definition from_wei :: "int \<Rightarrow> string \<Rightarrow> py_exn + py_value" where
  "from_wei number unit =
     (case units (map lower unit) of
        None \<Rightarrow> Inl UnknownUnit
      | Some k \<Rightarrow>
          if number = 0 then Inr (PInt 0)
          else if number < MIN_WEI \<or> MAX_WEI < number then Inl WeiOutOfRange
          else Inr (PDecimal (Dec number (- int k))))"

section \<open>The chain client and the signing account\<close>

text \<open>
  Every call into the web3 library that the handlers make is a call to the environment:
  it may raise, and it may change the state \<open>'s\<close> of the node behind it. The handlers pass
  what one call returns to the next and never look inside, so each call has the type of
  its documented result. The ABI, the node and the key are not part of the repository;
  they are the parameter \<open>'s chain\<close>.
\<close>

type_synonym address = string

type_synonym bytes = "nat list"

type_synonym tx = "(string \<times> py_value) list"

text \<open>\<^verbatim>\<open>contract.functions.<name>(*args)\<close>: a contract function bound to its arguments.\<close>

record contract_fn =
  fn_name :: string
  fn_args :: "py_value list"

text \<open>The dict given to \<^verbatim>\<open>build_transaction\<close>; \<^verbatim>\<open>"value"\<close> is absent but for a deposit.\<close>

record tx_params =
  chainId :: int
  gas :: int
  gasPrice :: int
  nonce :: int
  tx_value :: "int option"

text \<open>The dict given to \<^verbatim>\<open>estimate_gas\<close>: \<^verbatim>\<open>{"from": ..., "value": ...}\<close>.\<close>

record call_params =
  call_from :: address
  call_value :: int

datatype chain_call =
    GetTransactionCount address
  | ContractFunction string "py_value list"
  | ChainId
  | GasPrice
  | EstimateGas contract_fn call_params
  | BuildTransaction contract_fn tx_params
  | SignTransaction tx
  | SendRawTransaction bytes
  | Call contract_fn
  | FromWei py_value string

datatype reply = RNone | RInt int | RTx tx | RBytes bytes | RValue py_value

text \<open>The log of a request: each call made, with the exception or the value it gave.\<close>

type_synonym event = "chain_call \<times> (py_exn + reply)"

record 's chain =
  get_transaction_count :: "address \<Rightarrow> 's \<Rightarrow> (py_exn + int) \<times> 's"
  contract_functions :: "string \<Rightarrow> py_value list \<Rightarrow> 's \<Rightarrow> (py_exn + unit) \<times> 's"
  chain_id :: "'s \<Rightarrow> (py_exn + int) \<times> 's"
  gas_price :: "'s \<Rightarrow> (py_exn + int) \<times> 's"
  estimate_gas :: "contract_fn \<Rightarrow> call_params \<Rightarrow> 's \<Rightarrow> (py_exn + int) \<times> 's"
  build_transaction :: "contract_fn \<Rightarrow> tx_params \<Rightarrow> 's \<Rightarrow> (py_exn + tx) \<times> 's"
  sign_transaction :: "tx \<Rightarrow> 's \<Rightarrow> (py_exn + bytes) \<times> 's"
  send_raw_transaction :: "bytes \<Rightarrow> 's \<Rightarrow> (py_exn + bytes) \<times> 's"
  call :: "contract_fn \<Rightarrow> 's \<Rightarrow> (py_exn + py_value list) \<times> 's"
  fromWei :: "py_value \<Rightarrow> string \<Rightarrow> 's \<Rightarrow> (py_exn + py_value) \<times> 's"
  hex :: "bytes \<Rightarrow> string"

text \<open>The module-level configuration: the signing account and \<^verbatim>\<open>ISO_CID\<close>.\<close>

record config =
  account_address :: address
  ISO_CID :: "string option"

type_synonym 's world = "event list \<times> 's"

type_synonym ('s, 'a) action = "'s world \<Rightarrow> (py_exn + 'a) \<times> 's world"

definition perform ::
  "chain_call \<Rightarrow> ('a \<Rightarrow> reply) \<Rightarrow> ('s \<Rightarrow> (py_exn + 'a) \<times> 's) \<Rightarrow> ('s, 'a) action" where
  "perform c wrap op w =
     (case op (snd w) of (r, s') \<Rightarrow> (r, (fst w @ [(c, map_sum id wrap r)], s')))"

definition and_then :: "('s, 'a) action \<Rightarrow> ('a \<Rightarrow> ('s, 'b) action) \<Rightarrow> ('s, 'b) action" where
  "and_then m f w = (case m w of (Inl ex, w') \<Rightarrow> (Inl ex, w') | (Inr x, w') \<Rightarrow> f x w')"

definition returns :: "'a \<Rightarrow> ('s, 'a) action" where
  "returns x w = (Inr x, w)"

definition pure :: "py_exn + 'a \<Rightarrow> ('s, 'a) action" where
  "pure r w = (r, w)"

text \<open>
  What a view function gives Flask: a response (status and JSON body), or an exception
  that no handler of the source catches.
\<close>

datatype outcome = Response nat "(string \<times> py_value) list" | Unhandled py_exn

text \<open>\<^verbatim>\<open>except Exception as e: return jsonify({"error": str(e)}), 500\<close>\<close>

definition except_Exception :: "('s, outcome) action \<Rightarrow> 's world \<Rightarrow> outcome \<times> 's world" where
  "except_Exception body w =
     (case body w of
        (Inl ex, w') \<Rightarrow> (Response 500 [(''error'', PStr (exn_str ex))], w')
      | (Inr out, w') \<Rightarrow> (out, w'))"

text \<open>
  \<^verbatim>\<open>data.get\<close> on a body that is not a dict: the text names the type of the body, as in
  \<^verbatim>\<open>'list' object has no attribute 'get'\<close>.
\<close>

fun type_name :: "py_value \<Rightarrow> string" where
  "type_name PNone = ''NoneType''"
| "type_name (PBool b) = ''bool''"
| "type_name (PInt n) = ''int''"
| "type_name (PFloat d) = ''float''"
| "type_name (PDecimal d) = ''decimal.Decimal''"
| "type_name (PStr s) = ''str''"
| "type_name (PList xs) = ''list''"
| "type_name (PDict kvs) = ''dict''"

definition quoted :: "string \<Rightarrow> string" where
  "quoted s = CHR 0x27 # s @ [CHR 0x27]"

definition AttributeError :: "py_value \<Rightarrow> py_exn" where
  "AttributeError v =
     PyExn ''AttributeError''
       (quoted (type_name v) @ '' object has no attribute '' @ quoted ''get'')"

definition missing_fields :: outcome where
  "missing_fields = Response 400 [(''error'', PStr ''Missing required fields'')]"

definition success :: "string \<Rightarrow> outcome" where
  "success h = Response 200 [(''status'', PStr ''success''), (''txHash'', PStr h)]"

text \<open>\<^verbatim>\<open>f"ipfs://{ISO_CID}"\<close>, where an unset variable prints as \<^verbatim>\<open>None\<close>.\<close>

definition ipfs_uri :: "config \<Rightarrow> string" where
  "ipfs_uri cfg = ''ipfs://'' @ (case ISO_CID cfg of None \<Rightarrow> ''None'' | Some c \<Rightarrow> c)"

section \<open>The request handlers\<close>

definition create_order :: "'s chain \<Rightarrow> config \<Rightarrow> py_value \<Rightarrow> 's world \<Rightarrow> outcome \<times> 's world" where
  "create_order ch cfg data w =
     (case data of
        PDict kvs \<Rightarrow>
          (let supplier = dict_get kvs ''supplier'';
               amount_eth = dict_get kvs ''amount'';
               vin = dict_get kvs ''vin''
           in if \<not> truthy supplier \<or> \<not> truthy amount_eth \<or> \<not> truthy vin
              then (missing_fields, w)
              else
                (case to_wei amount_eth ''ether'' of
                   Inl ex \<Rightarrow> (Unhandled ex, w)
                 | Inr amount_wei \<Rightarrow>
                     except_Exception
                       (and_then (perform (GetTransactionCount (account_address cfg)) RInt
                            (get_transaction_count ch (account_address cfg))) (\<lambda>nonce.
                        and_then (perform
                            (ContractFunction ''createOrder''
                               [supplier, PInt amount_wei, vin, PStr (ipfs_uri cfg)])
                            (\<lambda>u. RNone)
                            (contract_functions ch ''createOrder''
                               [supplier, PInt amount_wei, vin, PStr (ipfs_uri cfg)])) (\<lambda>u.
                        and_then (perform ChainId RInt (chain_id ch)) (\<lambda>cid.
                        and_then (perform GasPrice RInt (gas_price ch)) (\<lambda>price.
                        and_then (perform
                            (BuildTransaction
                               \<lparr>fn_name = ''createOrder'',
                                fn_args = [supplier, PInt amount_wei, vin, PStr (ipfs_uri cfg)]\<rparr>
                               \<lparr>chainId = cid, gas = 300000, gasPrice = price, nonce = nonce,
                                tx_value = None\<rparr>)
                            RTx
                            (build_transaction ch
                               \<lparr>fn_name = ''createOrder'',
                                fn_args = [supplier, PInt amount_wei, vin, PStr (ipfs_uri cfg)]\<rparr>
                               \<lparr>chainId = cid, gas = 300000, gasPrice = price, nonce = nonce,
                                tx_value = None\<rparr>)) (\<lambda>tx.
                        and_then (perform (SignTransaction tx) RBytes
                            (sign_transaction ch tx)) (\<lambda>raw.
                        and_then (perform (SendRawTransaction raw) RBytes
                            (send_raw_transaction ch raw)) (\<lambda>tx_hash.
                        returns (success (hex ch tx_hash))))))))))
                       w))
      | _ \<Rightarrow> (Unhandled (AttributeError data), w))"


definition deposit_funds :: "'s chain \<Rightarrow> config \<Rightarrow> py_value \<Rightarrow> 's world \<Rightarrow> outcome \<times> 's world" where
  "deposit_funds ch cfg data w =
     (case data of
        PDict kvs \<Rightarrow>
          (let order_id = dict_get kvs ''orderId'';
               amount_eth = dict_get kvs ''amount''
           in if \<not> truthy order_id \<or> \<not> truthy amount_eth
              then (missing_fields, w)
              else
                (case to_wei (PStr ''0.5'') ''ether'' of
                   Inl ex \<Rightarrow> (Unhandled ex, w)
                 | Inr amount_wei \<Rightarrow>
                     except_Exception
                       (and_then (perform (GetTransactionCount (account_address cfg)) RInt
                            (get_transaction_count ch (account_address cfg))) (\<lambda>nonce.
                        and_then (perform (ContractFunction ''depositFunds'' [order_id])
                            (\<lambda>u. RNone)
                            (contract_functions ch ''depositFunds'' [order_id])) (\<lambda>u.
                        and_then (perform
                            (EstimateGas
                               \<lparr>fn_name = ''depositFunds'', fn_args = [order_id]\<rparr>
                               \<lparr>call_from = account_address cfg, call_value = amount_wei\<rparr>)
                            RInt
                            (estimate_gas ch
                               \<lparr>fn_name = ''depositFunds'', fn_args = [order_id]\<rparr>
                               \<lparr>call_from = account_address cfg, call_value = amount_wei\<rparr>))
                          (\<lambda>gas_estimate.
                        and_then (perform (ContractFunction ''depositFunds'' [order_id])
                            (\<lambda>u. RNone)
                            (contract_functions ch ''depositFunds'' [order_id])) (\<lambda>u.
                        and_then (perform ChainId RInt (chain_id ch)) (\<lambda>cid.
                        and_then (pure (to_wei (PStr ''5'') ''gwei'')) (\<lambda>price.
                        and_then (perform
                            (BuildTransaction
                               \<lparr>fn_name = ''depositFunds'', fn_args = [order_id]\<rparr>
                               \<lparr>chainId = cid, gas = gas_estimate, gasPrice = price,
                                nonce = nonce, tx_value = Some amount_wei\<rparr>)
                            RTx
                            (build_transaction ch
                               \<lparr>fn_name = ''depositFunds'', fn_args = [order_id]\<rparr>
                               \<lparr>chainId = cid, gas = gas_estimate, gasPrice = price,
                                nonce = nonce, tx_value = Some amount_wei\<rparr>)) (\<lambda>tx.
                        and_then (perform (SignTransaction tx) RBytes
                            (sign_transaction ch tx)) (\<lambda>raw.
                        and_then (perform (SendRawTransaction raw) RBytes
                            (send_raw_transaction ch raw)) (\<lambda>tx_hash.
                        returns (success (hex ch tx_hash))))))))))))
                       w))
      | _ \<Rightarrow> (Unhandled (AttributeError data), w))"

definition mark_shipped :: "'s chain \<Rightarrow> config \<Rightarrow> py_value \<Rightarrow> 's world \<Rightarrow> outcome \<times> 's world" where
  "mark_shipped ch cfg data w =
     (case data of
        PDict kvs \<Rightarrow>
          (let order_id = dict_get kvs ''orderId''
           in if \<not> truthy order_id
              then (missing_fields, w)
              else
                except_Exception
                  (and_then (perform (GetTransactionCount (account_address cfg)) RInt
                       (get_transaction_count ch (account_address cfg))) (\<lambda>nonce.
                   and_then (perform (ContractFunction ''markShipped'' [order_id])
                       (\<lambda>u. RNone)
                       (contract_functions ch ''markShipped'' [order_id])) (\<lambda>u.
                   and_then (perform ChainId RInt (chain_id ch)) (\<lambda>cid.
                   and_then (perform GasPrice RInt (gas_price ch)) (\<lambda>price.
                   and_then (perform
                       (BuildTransaction
                          \<lparr>fn_name = ''markShipped'', fn_args = [order_id]\<rparr>
                          \<lparr>chainId = cid, gas = 300000, gasPrice = price, nonce = nonce,
                           tx_value = None\<rparr>)
                       RTx
                       (build_transaction ch
                          \<lparr>fn_name = ''markShipped'', fn_args = [order_id]\<rparr>
                          \<lparr>chainId = cid, gas = 300000, gasPrice = price, nonce = nonce,
                           tx_value = None\<rparr>)) (\<lambda>tx.
                   and_then (perform (SignTransaction tx) RBytes
                       (sign_transaction ch tx)) (\<lambda>raw.
                   and_then (perform (SendRawTransaction raw) RBytes
                       (send_raw_transaction ch raw)) (\<lambda>tx_hash.
                   returns (success (hex ch tx_hash))))))))))
                  w)
      | _ \<Rightarrow> (Unhandled (AttributeError data), w))"

definition confirm_delivery :: "'s chain \<Rightarrow> config \<Rightarrow> py_value \<Rightarrow> 's world \<Rightarrow> outcome \<times> 's world" where
  "confirm_delivery ch cfg data w =
     (case data of
        PDict kvs \<Rightarrow>
          (let order_id = dict_get kvs ''orderId''
           in if \<not> truthy order_id
              then (missing_fields, w)
              else
                except_Exception
                  (and_then (perform (GetTransactionCount (account_address cfg)) RInt
                       (get_transaction_count ch (account_address cfg))) (\<lambda>nonce.
                   and_then (perform (ContractFunction ''confirmDelivery'' [order_id])
                       (\<lambda>u. RNone)
                       (contract_functions ch ''confirmDelivery'' [order_id])) (\<lambda>u.
                   and_then (perform ChainId RInt (chain_id ch)) (\<lambda>cid.
                   and_then (perform GasPrice RInt (gas_price ch)) (\<lambda>price.
                   and_then (perform
                       (BuildTransaction
                          \<lparr>fn_name = ''confirmDelivery'', fn_args = [order_id]\<rparr>
                          \<lparr>chainId = cid, gas = 300000, gasPrice = price, nonce = nonce,
                           tx_value = None\<rparr>)
                       RTx
                       (build_transaction ch
                          \<lparr>fn_name = ''confirmDelivery'', fn_args = [order_id]\<rparr>
                          \<lparr>chainId = cid, gas = 300000, gasPrice = price, nonce = nonce,
                           tx_value = None\<rparr>)) (\<lambda>tx.
                   and_then (perform (SignTransaction tx) RBytes
                       (sign_transaction ch tx)) (\<lambda>raw.
                   and_then (perform (SendRawTransaction raw) RBytes
                       (send_raw_transaction ch raw)) (\<lambda>tx_hash.
                   returns (success (hex ch tx_hash))))))))))
                  w)
      | _ \<Rightarrow> (Unhandled (AttributeError data), w))"




section \<open>The four write transitions\<close>

datatype transition = CreateOrder | DepositFunds | MarkShipped | ConfirmDelivery

text \<open>The POST routes: \<^verbatim>\<open>/createOrder\<close>, \<^verbatim>\<open>/depositFunds\<close>, \<^verbatim>\<open>/markShipped\<close>, \<^verbatim>\<open>/confirmDelivery\<close>.\<close>

fun post :: "transition \<Rightarrow> 's chain \<Rightarrow> config \<Rightarrow> py_value \<Rightarrow> 's world \<Rightarrow> outcome \<times> 's world" where
  "post CreateOrder = create_order"
| "post DepositFunds = deposit_funds"
| "post MarkShipped = mark_shipped"
| "post ConfirmDelivery = confirm_delivery"

text \<open>The fields each handler tests before it does anything else.\<close>

fun required_fields :: "transition \<Rightarrow> string list" where
  "required_fields CreateOrder = [''supplier'', ''amount'', ''vin'']"
| "required_fields DepositFunds = [''orderId'', ''amount'']"
| "required_fields MarkShipped = [''orderId'']"
| "required_fields ConfirmDelivery = [''orderId'']"

section \<open>A stub chain\<close>

text \<open>
  A chain client for examples. Its state is the signer's transaction count; a submitted
  transaction is accepted and counted. The second stub rejects every submission, as a
  node does for a reverted execution.
\<close>

definition stub_order :: "py_value list" where
  "stub_order =
     [PInt 1, PStr ''0xB0'', PStr ''0xCF10'', PInt 1000000000000000000, PInt 0,
      PStr ''VIN123456'', PStr ''ipfs://cid'']"

definition stub :: "nat chain" where
  "stub =
     \<lparr>get_transaction_count = (\<lambda>a s. (Inr (int s), s)),
      contract_functions = (\<lambda>name args s. (Inr (), s)),
      chain_id = (\<lambda>s. (Inr 1, s)),
      gas_price = (\<lambda>s. (Inr 20, s)),
      estimate_gas = (\<lambda>f p s. (Inr 21000, s)),
      build_transaction = (\<lambda>f p s. (Inr [(''nonce'', PInt (nonce p))], s)),
      sign_transaction = (\<lambda>t s. (Inr [1, 2, 3], s)),
      send_raw_transaction = (\<lambda>raw s. (Inr [171, 205], Suc s)),
      call = (\<lambda>f s. (Inr stub_order, s)),
      fromWei = (\<lambda>v u s. (case v of PInt n \<Rightarrow> from_wei n u | _ \<Rightarrow> Inl UnsupportedType, s)),
      hex = (\<lambda>b. ''abcd'')\<rparr>"

definition reverted :: py_exn where
  "reverted = PyExn ''ContractLogicError'' ''execution reverted''"

definition rejecting_stub :: "nat chain" where
  "rejecting_stub = stub\<lparr>send_raw_transaction := (\<lambda>raw s. (Inl reverted, s))\<rparr>"

definition stub_config :: config where
  "stub_config = \<lparr>account_address = ''0xA11CE'', ISO_CID = Some ''cid''\<rparr>"


section \<open>Example requests\<close>

text \<open>
  The request of the spec's example scenario (amount 1.0), a deposit, a shipment, and an
  order whose amount, 1.5e-18, is below one smallest unit and a half above it.
\<close>

definition example_create :: "(string \<times> py_value) list" where
  "example_create =
     [(''supplier'', PStr ''0xCF10''), (''amount'', PFloat (Dec 10 (- 1))),
      (''vin'', PStr ''VIN123456'')]"

definition example_create_fn :: contract_fn where
  "example_create_fn =
     \<lparr>fn_name = ''createOrder'',
      fn_args = [PStr ''0xCF10'', PInt 1000000000000000000, PStr ''VIN123456'',
                 PStr ''ipfs://cid'']\<rparr>"

definition example_deposit :: "(string \<times> py_value) list" where
  "example_deposit = [(''orderId'', PInt 1), (''amount'', PFloat (Dec 10 (- 1)))]"

definition example_deposit_fn :: contract_fn where
  "example_deposit_fn = \<lparr>fn_name = ''depositFunds'', fn_args = [PInt 1]\<rparr>"





section \<open>Reading amounts and logs\<close>



text \<open>A logged call that raised.\<close>

fun raised :: "event \<Rightarrow> bool" where
  "raised (c, Inl ex) = True"
| "raised (c, Inr v) = False"


text \<open>The keys of a response's JSON body.\<close>

fun body_fields :: "outcome \<Rightarrow> string list" where
  "body_fields (Response st b) = map fst b"
| "body_fields (Unhandled ex) = []"



section \<open>The unit conversion and the numbers it denotes\<close>










section \<open>Running the handlers\<close>

lemma and_then_perform:
  "and_then (perform c wrap op) f (tr, s) =
     (case op s of
        (Inl ex, s') \<Rightarrow> (Inl ex, (tr @ [(c, Inl ex)], s'))
      | (Inr x, s') \<Rightarrow> f x (tr @ [(c, Inr (wrap x))], s'))"
  by (simp add: and_then_def perform_def split: prod.splits sum.splits)

lemma and_then_pure:
  "and_then (pure r) f w = (case r of Inl ex \<Rightarrow> (Inl ex, w) | Inr x \<Rightarrow> f x w)"
  by (simp add: and_then_def pure_def split: sum.splits)

lemmas run_simps =
  Let_def and_then_perform and_then_pure except_Exception_def returns_def

lemmas handler_defs =
  create_order_def deposit_funds_def mark_shipped_def confirm_delivery_def

lemma to_wei_half_ether: "to_wei (PStr ''0.5'') ''ether'' = Inr 500000000000000000"
  by code_simp

lemma to_wei_five_gwei: "to_wei (PStr ''5'') ''gwei'' = Inr 5000000000"
  by code_simp

subsection \<open>Validation\<close>

lemma falsy_field_rejected:
  assumes "k \<in> set (required_fields t)" and "\<not> truthy (dict_get kvs k)"
  shows "post t ch cfg (PDict kvs) w = (missing_fields, w)"
  using assms by (cases t) (auto simp: handler_defs Let_def)

text \<open>
  C2. For each of the four write transitions, a request whose body lacks a required
  field (the key is absent, or its value is null) is answered with status 400 and the
  body \<^verbatim>\<open>{"error": "Missing required fields"}\<close>, and nothing is called on the chain
  client: the log of calls and the state of the node are returned as they were given.
\<close>

theorem missing_field_is_validation_error:
  assumes "k \<in> set (required_fields t)" and "dict_get kvs k = PNone"
  shows "post t ch cfg (PDict kvs) w =
           (Response 400 [(''error'', PStr ''Missing required fields'')], w)"
  using falsy_field_rejected [of k t kvs ch cfg w] assms by (simp add: missing_fields_def)

theorem missing_field_is_validation_error_witness:
  "''vin'' \<in> set (required_fields CreateOrder) \<and>
   dict_get [(''supplier'', PStr ''0xCF10''), (''amount'', PInt 1)] ''vin'' = PNone \<and>
   post CreateOrder stub stub_config
     (PDict [(''supplier'', PStr ''0xCF10''), (''amount'', PInt 1)]) ([], 5) =
     (Response 400 [(''error'', PStr ''Missing required fields'')], ([], 5))"
proof -
  have k: "''vin'' \<in> set (required_fields CreateOrder)"
    by simp
  have absent: "dict_get [(''supplier'', PStr ''0xCF10''), (''amount'', PInt 1)] ''vin'' = PNone"
    by (simp add: dict_get_def)
  show ?thesis
    using missing_field_is_validation_error [OF k absent, of stub stub_config "([], 5)"] k absent
    by simp
qed

text \<open>
  C9. For each write endpoint, a required field that is present with a falsy value (the
  integer 0, the float 0.0, the empty string, and the other values Python counts as
  false) is rejected exactly like an absent one: status 400, the body
  \<^verbatim>\<open>{"error": "Missing required fields"}\<close>, and no call on the chain client.
\<close>

theorem falsy_field_is_validation_error:
  assumes "k \<in> set (required_fields t)" and "map_of kvs k = Some v" and "\<not> truthy v"
  shows "post t ch cfg (PDict kvs) w =
           (Response 400 [(''error'', PStr ''Missing required fields'')], w)"
proof -
  from assms(2) have "dict_get kvs k = v"
    by (simp add: dict_get_def)
  with assms(3) have "\<not> truthy (dict_get kvs k)"
    by simp
  from falsy_field_rejected [OF assms(1) this] show ?thesis
    by (simp add: missing_fields_def)
qed

theorem falsy_field_is_validation_error_witness:
  "\<not> truthy (PInt 0) \<and> \<not> truthy (PFloat (Dec 0 0)) \<and> \<not> truthy (PStr []) \<and>
   post DepositFunds stub stub_config
     (PDict [(''orderId'', PInt 0), (''amount'', PFloat (Dec 10 (- 1)))]) ([], 5) =
     (Response 400 [(''error'', PStr ''Missing required fields'')], ([], 5)) \<and>
   post MarkShipped stub stub_config (PDict [(''orderId'', PInt 0)]) ([], 5) =
     (Response 400 [(''error'', PStr ''Missing required fields'')], ([], 5)) \<and>
   post CreateOrder stub stub_config
     (PDict [(''supplier'', PStr ''0xCF10''), (''amount'', PFloat (Dec 0 0)),
             (''vin'', PStr ''VIN123456'')]) ([], 5) =
     (Response 400 [(''error'', PStr ''Missing required fields'')], ([], 5)) \<and>
   post CreateOrder stub stub_config
     (PDict [(''supplier'', PStr []), (''amount'', PInt 1), (''vin'', PStr ''VIN123456'')])
     ([], 5) =
     (Response 400 [(''error'', PStr ''Missing required fields'')], ([], 5)) \<and>
   post CreateOrder stub stub_config
     (PDict [(''supplier'', PStr ''0xCF10''), (''amount'', PInt 1), (''vin'', PStr [])])
     ([], 5) =
     (Response 400 [(''error'', PStr ''Missing required fields'')], ([], 5))"
proof -
  have zero: "\<not> truthy (PInt 0)" and zero_float: "\<not> truthy (PFloat (Dec 0 0))"
    and empty: "\<not> truthy (PStr [])"
    by simp_all
  note deposit = falsy_field_is_validation_error
    [of "''orderId''" DepositFunds
      "[(''orderId'', PInt 0), (''amount'', PFloat (Dec 10 (- 1)))]" "PInt 0"
      stub stub_config "([], 5)"]
  note ship = falsy_field_is_validation_error
    [of "''orderId''" MarkShipped "[(''orderId'', PInt 0)]" "PInt 0" stub stub_config "([], 5)"]
  note amount = falsy_field_is_validation_error
    [of "''amount''" CreateOrder
      "[(''supplier'', PStr ''0xCF10''), (''amount'', PFloat (Dec 0 0)),
        (''vin'', PStr ''VIN123456'')]" "PFloat (Dec 0 0)" stub stub_config "([], 5)"]
  note supplier = falsy_field_is_validation_error
    [of "''supplier''" CreateOrder
      "[(''supplier'', PStr []), (''amount'', PInt 1), (''vin'', PStr ''VIN123456'')]"
      "PStr []" stub stub_config "([], 5)"]
  note vin = falsy_field_is_validation_error
    [of "''vin''" CreateOrder
      "[(''supplier'', PStr ''0xCF10''), (''amount'', PInt 1), (''vin'', PStr [])]"
      "PStr []" stub stub_config "([], 5)"]
  from deposit ship amount supplier vin zero zero_float empty show ?thesis
    by simp
qed

subsection \<open>The conversion outside the try block\<close>

text \<open>
  C10. In \<^verbatim>\<open>create_order\<close> the amount is converted before the \<^verbatim>\<open>try\<close> block is entered.
  When the three fields are present and truthy and the conversion raises, the exception
  leaves the handler: the outcome is neither the 400 response nor the 500 response, and
  nothing has been called on the chain client. The string \<^verbatim>\<open>"abc"\<close> is such an amount.
\<close>

theorem create_order_conversion_unhandled:
  assumes "truthy (dict_get kvs ''supplier'')"
    and "truthy (dict_get kvs ''amount'')"
    and "truthy (dict_get kvs ''vin'')"
    and "to_wei (dict_get kvs ''amount'') ''ether'' = Inl ex"
  shows "create_order ch cfg (PDict kvs) w = (Unhandled ex, w)"
  using assms by (simp add: create_order_def)

theorem create_order_conversion_unhandled_witness:
  "truthy (PStr ''0xCF10'') \<and> truthy (PStr ''abc'') \<and> truthy (PStr ''VIN123456'') \<and>
   to_wei (PStr ''abc'') ''ether'' = Inl InvalidOperation \<and>
   create_order stub stub_config
     (PDict [(''supplier'', PStr ''0xCF10''), (''amount'', PStr ''abc''),
             (''vin'', PStr ''VIN123456'')]) ([], 5) =
     (Unhandled InvalidOperation, ([], 5))"
proof -
  let ?kvs = "[(''supplier'', PStr ''0xCF10''), (''amount'', PStr ''abc''),
               (''vin'', PStr ''VIN123456'')]"
  have raises: "to_wei (PStr ''abc'') ''ether'' = Inl InvalidOperation"
    by code_simp
  have s: "truthy (dict_get ?kvs ''supplier'')"
    and a: "truthy (dict_get ?kvs ''amount'')"
    and v: "truthy (dict_get ?kvs ''vin'')"
    by (simp_all add: dict_get_def)
  have r: "to_wei (dict_get ?kvs ''amount'') ''ether'' = Inl InvalidOperation"
    using raises by (simp add: dict_get_def)
  show ?thesis
    using create_order_conversion_unhandled [OF s a v r, of stub stub_config "([], 5)"] raises
    by simp
qed


subsection \<open>Runs on the stub chain\<close>

lemmas log_splits = py_value.splits if_splits sum.splits prod.splits

lemmas stub_simps =
  stub_def rejecting_stub_def stub_config_def stub_order_def reverted_def dict_get_def
  success_def missing_fields_def ipfs_uri_def

lemma to_wei_one_ether: "to_wei (PFloat (Dec 10 (- 1))) ''ether'' = Inr 1000000000000000000"
  by code_simp




lemma stub_deposit_log:
  "fst (snd (deposit_funds stub stub_config (PDict example_deposit) ([], 5))) =
     [(GetTransactionCount ''0xA11CE'', Inr (RInt 5)),
      (ContractFunction ''depositFunds'' [PInt 1], Inr RNone),
      (EstimateGas example_deposit_fn
         \<lparr>call_from = ''0xA11CE'', call_value = 500000000000000000\<rparr>,
       Inr (RInt 21000)),
      (ContractFunction ''depositFunds'' [PInt 1], Inr RNone),
      (ChainId, Inr (RInt 1)),
      (BuildTransaction example_deposit_fn
         \<lparr>chainId = 1, gas = 21000, gasPrice = 5000000000, nonce = 5,
          tx_value = Some 500000000000000000\<rparr>,
       Inr (RTx [(''nonce'', PInt 5)])),
      (SignTransaction [(''nonce'', PInt 5)], Inr (RBytes [1, 2, 3])),
      (SendRawTransaction [1, 2, 3], Inr (RBytes [171, 205]))]"
  by (simp add: deposit_funds_def example_deposit_def example_deposit_fn_def run_simps
        stub_simps to_wei_half_ether to_wei_five_gwei)



lemma rejecting_create_run:
  "create_order rejecting_stub stub_config (PDict example_create) ([], 5) =
     (Response 500 [(''error'', PStr ''execution reverted'')],
      ([(GetTransactionCount ''0xA11CE'', Inr (RInt 5)),
        (ContractFunction ''createOrder'' (fn_args example_create_fn), Inr RNone),
        (ChainId, Inr (RInt 1)),
        (GasPrice, Inr (RInt 20)),
        (BuildTransaction example_create_fn
           \<lparr>chainId = 1, gas = 300000, gasPrice = 20, nonce = 5, tx_value = None\<rparr>,
         Inr (RTx [(''nonce'', PInt 5)])),
        (SignTransaction [(''nonce'', PInt 5)], Inr (RBytes [1, 2, 3])),
        (SendRawTransaction [1, 2, 3], Inl reverted)], 5))"
  by (simp add: create_order_def example_create_def example_create_fn_def run_simps stub_simps
        to_wei_one_ether)





subsection \<open>The deposit's attached value\<close>

text \<open>
  C1. A deposit request that passes validation and gets as far as building its
  transaction attaches the value 500000000000000000, which is 0.5 ether in smallest
  units, whatever amount the caller sent: a request with the same order id and any other
  truthy amount has the same outcome, makes the same calls with the same arguments and
  leaves the node in the same state. The caller's amount is tested for truthiness and
  appears nowhere else.
\<close>

theorem deposit_value_is_fixed:
  assumes "deposit_funds ch cfg (PDict kvs) ([], s) = (out, (evs, s'))"
    and "(BuildTransaction f p, r) \<in> set evs"
    and "dict_get kvs' ''orderId'' = dict_get kvs ''orderId''"
    and "truthy (dict_get kvs' ''amount'')"
  shows "to_wei (PStr ''0.5'') ''ether'' = Inr 500000000000000000 \<and>
         tx_value p = Some 500000000000000000 \<and>
         deposit_funds ch cfg (PDict kvs') ([], s) = (out, (evs, s'))"
proof -
  from assms(1,2) have valid: "truthy (dict_get kvs ''orderId'')" "truthy (dict_get kvs ''amount'')"
    and attached: "tx_value p = Some 500000000000000000"
    by (auto simp: deposit_funds_def run_simps missing_fields_def to_wei_half_ether
          to_wei_five_gwei split: log_splits)
  from valid assms(3,4)
  have "deposit_funds ch cfg (PDict kvs') ([], s) = deposit_funds ch cfg (PDict kvs) ([], s)"
    by (simp add: deposit_funds_def Let_def)
  with assms(1) attached show ?thesis
    by (simp add: to_wei_half_ether)
qed

theorem deposit_value_is_fixed_witness:
  "(BuildTransaction example_deposit_fn
      \<lparr>chainId = 1, gas = 21000, gasPrice = 5000000000, nonce = 5,
       tx_value = Some 500000000000000000\<rparr>,
    Inr (RTx [(''nonce'', PInt 5)]))
     \<in> set (fst (snd (deposit_funds stub stub_config (PDict example_deposit) ([], 5)))) \<and>
   dict_get [(''orderId'', PInt 1), (''amount'', PInt 7)] ''orderId'' =
     dict_get example_deposit ''orderId'' \<and>
   truthy (dict_get [(''orderId'', PInt 1), (''amount'', PInt 7)] ''amount'') \<and>
   to_wei (PStr ''0.5'') ''ether'' = Inr 500000000000000000 \<and>
   deposit_funds stub stub_config (PDict [(''orderId'', PInt 1), (''amount'', PInt 7)]) ([], 5) =
     deposit_funds stub stub_config (PDict example_deposit) ([], 5)"
proof -
  let ?r = "deposit_funds stub stub_config (PDict example_deposit) ([], 5)"
  have run: "?r = (fst ?r, (fst (snd ?r), snd (snd ?r)))"
    by simp
  have built:
    "(BuildTransaction example_deposit_fn
        \<lparr>chainId = 1, gas = 21000, gasPrice = 5000000000, nonce = 5,
         tx_value = Some 500000000000000000\<rparr>,
      Inr (RTx [(''nonce'', PInt 5)])) \<in> set (fst (snd ?r))"
    by (simp add: stub_deposit_log)
  have same: "dict_get [(''orderId'', PInt 1), (''amount'', PInt 7)] ''orderId'' =
      dict_get example_deposit ''orderId''"
    by (simp add: dict_get_def example_deposit_def)
  have amount: "truthy (dict_get [(''orderId'', PInt 1), (''amount'', PInt 7)] ''amount'')"
    by (simp add: dict_get_def)
  from deposit_value_is_fixed [OF run built same amount] built same amount
  show ?thesis
    by simp
qed

subsection \<open>The nonce\<close>






subsection \<open>Faults of the chain client\<close>

text \<open>
  C4. In every write transition, when a call made inside the \<^verbatim>\<open>try\<close> block raises, the
  handler answers with status 500 and the body \<^verbatim>\<open>{"error": str(e)}\<close>, the text of that
  exception unchanged. The body has no \<^verbatim>\<open>txHash\<close>, the call that raised is the last one
  of the request, and it is the only one that raised: nothing is tried again.
\<close>

theorem chain_fault_is_500:
  assumes "post t ch cfg data ([], s) = (out, (evs, s'))"
    and "(c, Inl ex) \<in> set evs"
  shows "out = Response 500 [(''error'', PStr (exn_str ex))] \<and>
         body_fields out = [''error''] \<and>
         last evs = (c, Inl ex) \<and>
         filter raised evs = [(c, Inl ex)]"
  using assms
  by (cases t)
     (auto simp: handler_defs run_simps missing_fields_def to_wei_half_ether
        to_wei_five_gwei success_def split: log_splits)

theorem chain_fault_is_500_witness:
  "(SendRawTransaction [1, 2, 3], Inl reverted)
     \<in> set (fst (snd (post CreateOrder rejecting_stub stub_config (PDict example_create) ([], 5)))) \<and>
   fst (post CreateOrder rejecting_stub stub_config (PDict example_create) ([], 5)) =
     Response 500 [(''error'', PStr ''execution reverted'')] \<and>
   body_fields (fst (post CreateOrder rejecting_stub stub_config (PDict example_create) ([], 5))) =
     [''error''] \<and>
   last (fst (snd (post CreateOrder rejecting_stub stub_config (PDict example_create) ([], 5)))) =
     (SendRawTransaction [1, 2, 3], Inl reverted)"
proof -
  let ?r = "post CreateOrder rejecting_stub stub_config (PDict example_create) ([], 5)"
  have run: "?r = (fst ?r, (fst (snd ?r), snd (snd ?r)))"
    by simp
  have fault: "(SendRawTransaction [1, 2, 3], Inl reverted) \<in> set (fst (snd ?r))"
    by (simp add: rejecting_create_run)
  from chain_fault_is_500 [OF run fault] fault show ?thesis
    by (simp add: reverted_def)
qed

subsection \<open>The amount of a new order\<close>




subsection \<open>Gas\<close>




subsection \<open>Reading an order\<close>




subsection \<open>The round trip of the unit conversion\<close>




end
